theory Spec2Isabelle
  imports Main "HOL-Library.Word" "HOL-Library.Sublist"
begin

unbundle bit_operations_syntax

section \<open>The libvirt RPC transport of go-libvirt (rpc.go)\<close>

text \<open>
  A shallow embedding of \<^verbatim>\<open>vendor/github.com/digitalocean/go-libvirt/rpc.go\<close>.
  Go's \<^verbatim>\<open>uint32\<close> is \<open>32 word\<close>, a byte is \<open>8 word\<close>, a \<^verbatim>\<open>[]byte\<close> is a list
  of bytes (\<open>None\<close> where the code tests a slice against \<^verbatim>\<open>nil\<close>), an \<^verbatim>\<open>error\<close> result is
  an \<open>error option\<close> (\<open>None\<close> is \<^verbatim>\<open>nil\<close>). The methods of \<^verbatim>\<open>*Libvirt\<close> take the
  connection state and return it updated.
\<close>

type_synonym byte = "8 word"
type_synonym u32 = "32 word"

subsection \<open>Constants and records\<close>

text \<open>request and response types (\<^verbatim>\<open>iota\<close> constants)\<close>

definition Call :: u32 where "Call = 0"
definition Reply :: u32 where "Reply = 1"
definition Message :: u32 where "Message = 2"
definition Stream :: u32 where "Stream = 3"
definition CallWithFDs :: u32 where "CallWithFDs = 4"
definition ReplyWithFDs :: u32 where "ReplyWithFDs = 5"

text \<open>request and response statuses\<close>

definition StatusOK :: u32 where "StatusOK = 0"
definition StatusError :: u32 where "StatusError = 1"
definition StatusContinue :: u32 where "StatusContinue = 2"

text \<open>
  Modelled from the spec: \<^verbatim>\<open>constants.PacketLengthSize\<close>, \<^verbatim>\<open>constants.HeaderSize\<close> and
  \<^verbatim>\<open>MiB\<close> are declared in files that are not among the sources; the spec fixes the wire
  format as a 4-byte length followed by a 24-byte header, and the chunk bound as
  4 MiB minus the header size.
\<close>

definition PacketLengthSize :: nat where "PacketLengthSize = 4"
definition HeaderSize :: nat where "HeaderSize = 24"
definition MiB :: nat where "MiB = 1048576"

record header =
  Program :: u32
  Version :: u32
  Procedure :: u32
  Type :: u32
  Serial :: u32
  Status :: u32

record packet =
  Len :: u32
  Header :: header

text \<open>
  The internal rpc response. Its field \<^verbatim>\<open>Status\<close> is \<open>Status_r\<close> here, since the header
  has a field of the same name.
\<close>

record response =
  Payload :: "byte list"
  Status_r :: u32

text \<open>The zero value \<^verbatim>\<open>response{}\<close>.\<close>

definition response_zero :: response where
  "response_zero = \<lparr>Payload = [], Status_r = 0\<rparr>"

text \<open>The libvirt error response; the field \<^verbatim>\<open>Message\<close> is \<open>Message_e\<close> here.\<close>

record libvirtError =
  Code :: u32
  DomainID :: u32
  Padding :: byte
  Message_e :: string
  Level :: u32

text \<open>
  Go error values: \<^verbatim>\<open>io.EOF\<close>, \<^verbatim>\<open>io.ErrUnexpectedEOF\<close>, the package's
  \<^verbatim>\<open>ErrUnsupported\<close>, a \<^verbatim>\<open>libvirtError\<close>, and any other error with its text.
  \<^verbatim>\<open>err == io.EOF\<close> compares identities, so an \<open>OtherError\<close> is never \<open>EOF\<close>.
\<close>

datatype error =
    EOF
  | ErrUnexpectedEOF
  | ErrUnsupported
  | LibvirtError libvirtError
  | OtherError string

text \<open>The method \<^verbatim>\<open>Error() string\<close>; for a \<^verbatim>\<open>libvirtError\<close> it returns \<^verbatim>\<open>e.Message\<close>.\<close>

fun Error :: "error \<Rightarrow> string" where
  "Error EOF = ''EOF''"
| "Error ErrUnexpectedEOF = ''unexpected EOF''"
| "Error ErrUnsupported = ''unsupported procedure requested''"
| "Error (LibvirtError e) = Message_e e"
| "Error (OtherError s) = s"

text \<open>\<^verbatim>\<open>strings.Contains(s, substr)\<close>: \<open>substr\<close> occurs in \<open>s\<close> as a contiguous run.\<close>

definition Contains :: "string \<Rightarrow> string \<Rightarrow> bool" where
  "Contains s substr = sublist substr s"

subsection \<open>Byte order\<close>

text \<open>\<^verbatim>\<open>binary.BigEndian.Uint32\<close> of a slice of at least four bytes, and its inverse.\<close>

definition Uint32 :: "byte list \<Rightarrow> u32" where
  "Uint32 b = ucast (b ! 3) OR push_bit 8 (ucast (b ! 2)) OR push_bit 16 (ucast (b ! 1))
     OR push_bit 24 (ucast (b ! 0))"

definition PutUint32 :: "u32 \<Rightarrow> byte list" where
  "PutUint32 v = [ucast (drop_bit 24 v), ucast (drop_bit 16 v), ucast (drop_bit 8 v), ucast v]"

text \<open>
  \<^verbatim>\<open>binary.Write(w, binary.BigEndian, p)\<close> for a \<^verbatim>\<open>packet\<close>: the seven \<^verbatim>\<open>uint32\<close> fields
  in declaration order, 28 bytes.
\<close>

definition packet_bytes :: "packet \<Rightarrow> byte list" where
  "packet_bytes p =
     PutUint32 (Len p) @ PutUint32 (Program (Header p)) @ PutUint32 (Version (Header p)) @
     PutUint32 (Procedure (Header p)) @ PutUint32 (Type (Header p)) @
     PutUint32 (Serial (Header p)) @ PutUint32 (Status (Header p))"

subsection \<open>Readers and writers\<close>

text \<open>
  An \<^verbatim>\<open>io.Reader\<close>: the bytes it will still deliver, an upper bound for each of the next
  \<^verbatim>\<open>Read\<close> calls (a partial read; 0 is a read of no bytes with a \<^verbatim>\<open>nil\<close> error; once the
  list is used up a read delivers as much as the buffer takes), and the error it
  reports once the bytes are used up. A \<^verbatim>\<open>Read\<close> delivers bytes or an error, not both.
\<close>

record reader =
  rdata :: "byte list"
  rsched :: "nat list"
  rfinal :: error

text \<open>
  \<^verbatim>\<open>r.Read(buf)\<close> with \<open>k = len(buf)\<close>: the new reader, the bytes copied to the front of
  \<^verbatim>\<open>buf\<close> (their number is the \<^verbatim>\<open>n\<close> that \<^verbatim>\<open>Read\<close> returns) and the error.
\<close>

definition Read :: "reader \<Rightarrow> nat \<Rightarrow> reader \<times> byte list \<times> error option" where
  "Read rd k =
     (if rdata rd = [] then (rd, [], Some (rfinal rd))
      else
        let n = (case rsched rd of
                   [] \<Rightarrow> min k (length (rdata rd))
                 | c # _ \<Rightarrow> min c (min k (length (rdata rd))))
        in (rd\<lparr>rdata := drop n (rdata rd), rsched := tl (rsched rd)\<rparr>, take n (rdata rd), None))"

text \<open>\<^verbatim>\<open>bytes.NewReader(b)\<close>: every read is served in full, then \<^verbatim>\<open>io.EOF\<close>.\<close>

definition NewReader :: "byte list \<Rightarrow> reader" where
  "NewReader b = \<lparr>rdata = b, rsched = [], rfinal = EOF\<rparr>"

text \<open>
  The buffered writer \<^verbatim>\<open>l.w\<close>: the segments that reached the connection, one per
  successful \<^verbatim>\<open>Flush\<close>, the bytes written and not yet flushed, and the outcome of each
  of the next write or flush operations (all succeed once the list is used up).
\<close>

record writer =
  flushed :: "byte list list"
  pending :: "byte list"
  wsched :: "error option list"

definition Write :: "writer \<Rightarrow> byte list \<Rightarrow> writer \<times> error option" where
  "Write wr bs =
     (case wsched wr of
        [] \<Rightarrow> (wr\<lparr>pending := pending wr @ bs\<rparr>, None)
      | None # es \<Rightarrow> (wr\<lparr>pending := pending wr @ bs, wsched := es\<rparr>, None)
      | Some err # es \<Rightarrow> (wr\<lparr>wsched := es\<rparr>, Some err))"

definition Flush :: "writer \<Rightarrow> writer \<times> error option" where
  "Flush wr =
     (case wsched wr of
        [] \<Rightarrow> (wr\<lparr>flushed := flushed wr @ [pending wr], pending := []\<rparr>, None)
      | None # es \<Rightarrow> (wr\<lparr>flushed := flushed wr @ [pending wr], pending := [], wsched := es\<rparr>, None)
      | Some err # es \<Rightarrow> (wr\<lparr>wsched := es\<rparr>, Some err))"

subsection \<open>Framing: pktlen, extractHeader, sendPacket\<close>

text \<open>
  The loop that \<^verbatim>\<open>pktlen\<close> and \<^verbatim>\<open>extractHeader\<close> both contain:
  \<^verbatim>\<open>for n := 0; n < cap(buf); { nn, err := r.Read(buf); if err != nil { return }; n += nn }\<close>.
  Every pass hands the whole of \<^verbatim>\<open>buf\<close> to \<^verbatim>\<open>Read\<close>, which fills it from its start.
\<close>

function readLoop :: "reader \<Rightarrow> byte list \<Rightarrow> nat \<Rightarrow> reader \<times> (error + byte list)" where
  "readLoop rd buf n =
     (if n < length buf then
        (case Read rd (length buf) of
           (rd', bs, Some err) \<Rightarrow> (rd', Inl err)
         | (rd', bs, None) \<Rightarrow> readLoop rd' (bs @ drop (length bs) buf) (n + length bs))
      else (rd, Inr buf))"
  by pat_completeness auto
termination
  by (relation "measure (\<lambda>(rd, buf, n). length (rsched rd) + length (rdata rd))")
    (auto simp: Read_def Let_def min_def neq_Nil_conv split: if_splits list.splits)

declare readLoop.simps [simp del]

text \<open>pktlen determines the length of an incoming rpc response.\<close>

definition pktlen :: "reader \<Rightarrow> reader \<times> (error + u32)" where
  "pktlen rd =
     (case readLoop rd (replicate PacketLengthSize 0) 0 of
        (rd', Inl err) \<Rightarrow> (rd', Inl err)
      | (rd', Inr buf) \<Rightarrow> (rd', Inr (Uint32 buf)))"

text \<open>extractHeader returns the decoded header from an incoming response.\<close>

definition extractHeader :: "reader \<Rightarrow> reader \<times> (error + header)" where
  "extractHeader rd =
     (case readLoop rd (replicate HeaderSize 0) 0 of
        (rd', Inl err) \<Rightarrow> (rd', Inl err)
      | (rd', Inr buf) \<Rightarrow>
          (rd', Inr \<lparr>Program = Uint32 (take 4 (drop 0 buf)),
                     Version = Uint32 (take 4 (drop 4 buf)),
                     Procedure = Uint32 (take 4 (drop 8 buf)),
                     Type = Uint32 (take 4 (drop 12 buf)),
                     Serial = Uint32 (take 4 (drop 16 buf)),
                     Status = Uint32 (take 4 (drop 20 buf))\<rparr>))"

text \<open>
  \<^verbatim>\<open>io.ReadFull(r, buf)\<close> with \<open>k = len(buf)\<close>, as \<^verbatim>\<open>listen\<close> uses it for the payload:
  it reads into \<^verbatim>\<open>buf[n:]\<close> until \<open>k\<close> bytes are there; an \<^verbatim>\<open>io.EOF\<close> after some bytes
  becomes \<^verbatim>\<open>io.ErrUnexpectedEOF\<close>. \<open>acc\<close> holds the bytes read so far.
\<close>

function ReadFull :: "reader \<Rightarrow> nat \<Rightarrow> byte list \<Rightarrow> reader \<times> (error + byte list)" where
  "ReadFull rd k acc =
     (if length acc < k then
        (case Read rd (k - length acc) of
           (rd', bs, Some err) \<Rightarrow>
             (rd', Inl (if err = EOF \<and> acc \<noteq> [] then ErrUnexpectedEOF else err))
         | (rd', bs, None) \<Rightarrow> ReadFull rd' k (acc @ bs))
      else (rd, Inr acc))"
  by pat_completeness auto
termination
  by (relation "measure (\<lambda>(rd, k, acc). length (rsched rd) + length (rdata rd))")
    (auto simp: Read_def Let_def min_def neq_Nil_conv split: if_splits list.splits)

declare ReadFull.simps [simp del]

subsection \<open>What the package takes from outside rpc.go\<close>

text \<open>
  The domain event. Its declaration is not among the sources; the transport reads only
  the field \<^verbatim>\<open>CallbackID\<close>, and the other fields are the record's extension.
\<close>

record DomainEvent =
  CallbackID :: u32

text \<open>
  The values that rpc.go uses and does not declare: the constants of
  \<^verbatim>\<open>internal/constants\<close>, the generated error numbers (as \<^verbatim>\<open>uint32\<close>), and the XDR
  library at the three types it is used at: decoding a \<^verbatim>\<open>libvirtError\<close>, decoding a
  \<^verbatim>\<open>DomainEvent\<close>, and marshalling the one-field struct of \<^verbatim>\<open>removeStream\<close> (the bytes
  written and the error). They are parameters of the model.
\<close>

record 'm extern =
  ProtocolVersion :: u32
  ProgramQEMU :: u32
  QEMUDomainMonitorEvent :: u32
  QEMUConnectDomainMonitorEventDeregister :: u32
  errOk :: u32
  errNoDomain :: u32
  xdrDecodeError :: "byte list \<Rightarrow> error + libvirtError"
  xdrDecodeEvent :: "byte list \<Rightarrow> error + 'm DomainEvent_scheme"
  xdrMarshalCallbackID :: "u32 \<Rightarrow> byte list \<times> error option"

subsection \<open>Channels and the connection state\<close>

text \<open>
  Run-time panics. A panic that is not recovered ends the program, so a function that
  can panic returns \<open>panic + state\<close>.
\<close>

datatype panic =
    SendOnClosedChannel
  | CloseOfClosedChannel
  | CloseOfNilChannel
  | MakeSliceLenOutOfRange

text \<open>
  An unbuffered channel: whether it is closed, and the values sent on it so far,
  oldest first. A send on an open channel is taken by the channel's receiver and
  recorded here; a send on a closed channel panics. How long the sender waits for the
  receiver is not part of the model.
\<close>

record 'a chan =
  closed :: bool
  sent :: "'a list"

definition send :: "'a chan \<Rightarrow> 'a \<Rightarrow> panic + 'a chan" where
  "send c v = (if closed c then Inl SendOnClosedChannel else Inr (c\<lparr>sent := sent c @ [v]\<rparr>))"

definition close :: "'a chan \<Rightarrow> panic + 'a chan" where
  "close c = (if closed c then Inl CloseOfClosedChannel else Inr (c\<lparr>closed := True\<rparr>))"

text \<open>
  The state of a \<^verbatim>\<open>Libvirt\<close>: the fields \<^verbatim>\<open>r\<close>, \<^verbatim>\<open>w\<close> and \<^verbatim>\<open>s\<close> (here \<open>l_r\<close>, \<open>l_w\<close>,
  \<open>l_s\<close>), the maps \<^verbatim>\<open>callbacks\<close> and \<^verbatim>\<open>events\<close> from an id to a channel, and the store
  that holds the channels by address (\<open>nchan\<close> is the next unused address). The three
  mutexes are not modelled: each function below runs as one step.
\<close>

record 'm Libvirt =
  l_r :: reader
  l_w :: writer
  l_s :: u32
  callbacks :: "u32 \<Rightarrow> nat option"
  events :: "u32 \<Rightarrow> nat option"
  rchans :: "nat \<Rightarrow> response chan"
  echans :: "nat \<Rightarrow> 'm DomainEvent_scheme chan"
  nchan :: nat

text \<open>\<^verbatim>\<open>make(chan response)\<close>: a new open channel at an unused address.\<close>

definition make_chan :: "'m Libvirt \<Rightarrow> 'm Libvirt \<times> nat" where
  "make_chan l =
     (l\<lparr>rchans := (rchans l)(nchan l := \<lparr>closed = False, sent = []\<rparr>), nchan := Suc (nchan l)\<rparr>,
      nchan l)"

subsection \<open>Sending a packet\<close>

definition sendPacket ::
  "'m extern \<Rightarrow> 'm Libvirt \<Rightarrow> u32 \<Rightarrow> u32 \<Rightarrow> u32 \<Rightarrow> byte list option \<Rightarrow> u32 \<Rightarrow> u32
     \<Rightarrow> 'm Libvirt \<times> error option" where
  "sendPacket K l sn proc program payload typ status =
     (let size = PacketLengthSize + HeaderSize +
                 (case payload of None \<Rightarrow> 0 | Some bs \<Rightarrow> length bs);
          p = \<lparr>Len = of_nat size,
               Header = \<lparr>Program = program, Version = ProtocolVersion K, Procedure = proc,
                         Type = typ, Serial = sn, Status = status\<rparr>\<rparr>
      in case Write (l_w l) (packet_bytes p) of
           (w1, Some err) \<Rightarrow> (l\<lparr>l_w := w1\<rparr>, Some err)
         | (w1, None) \<Rightarrow>
             (case payload of
                None \<Rightarrow> (case Flush w1 of (w2, e) \<Rightarrow> (l\<lparr>l_w := w2\<rparr>, e))
              | Some bs \<Rightarrow>
                  (case Write w1 bs of
                     (w2, Some err) \<Rightarrow> (l\<lparr>l_w := w2\<rparr>, Some err)
                   | (w2, None) \<Rightarrow> (case Flush w2 of (w3, e) \<Rightarrow> (l\<lparr>l_w := w3\<rparr>, e)))))"

subsection \<open>Errors and events\<close>

fun checkError :: "error \<Rightarrow> u32 \<Rightarrow> bool" where
  "checkError (LibvirtError e) expectedError = (Code e = expectedError)"
| "checkError _ expectedError = False"

text \<open>IsNotFound detects libvirt's ERR_NO_DOMAIN.\<close>

definition IsNotFound :: "'m extern \<Rightarrow> error \<Rightarrow> bool" where
  "IsNotFound K err = checkError err (errNoDomain K)"

text \<open>decodeError extracts an error message from the provider buffer.\<close>

definition decodeError :: "'m extern \<Rightarrow> byte list \<Rightarrow> error option" where
  "decodeError K buf =
     (case xdrDecodeError K buf of
        Inl err \<Rightarrow> Some err
      | Inr e \<Rightarrow>
          if Contains (Message_e e) ''unknown procedure'' then Some ErrUnsupported
          else if checkError (LibvirtError e) (errOk K) then None
          else Some (LibvirtError e))"

text \<open>decodeEvent extracts an event from the given byte slice.\<close>

definition decodeEvent :: "'m extern \<Rightarrow> byte list \<Rightarrow> error + 'm DomainEvent_scheme" where
  "decodeEvent K buf =
     (case xdrDecodeEvent K buf of Inl err \<Rightarrow> Inl err | Inr e \<Rightarrow> Inr e)"

text \<open>
  encode XDR encodes the provided data: \<^verbatim>\<open>buf.Bytes(), err\<close>, where the bytes of a
  buffer that was never written to are \<^verbatim>\<open>nil\<close>.
\<close>

definition encode :: "'m extern \<Rightarrow> u32 \<Rightarrow> byte list option \<times> error option" where
  "encode K callbackID =
     (case xdrMarshalCallbackID K callbackID of
        (bs, err) \<Rightarrow> (if bs = [] then None else Some bs, err))"

subsection \<open>The reader loop\<close>

text \<open>
  callback sends rpc responses to their respective caller. \<open>deliver\<close> is the part after
  the lookup: the send under the deferred \<^verbatim>\<open>recover()\<close>, which ends the function
  normally when the send panics.
\<close>

definition deliver :: "'m Libvirt \<Rightarrow> nat \<Rightarrow> response \<Rightarrow> panic + 'm Libvirt" where
  "deliver l c res =
     (case send (rchans l c) res of
        Inl p \<Rightarrow> Inr l
      | Inr ch \<Rightarrow> Inr (l\<lparr>rchans := (rchans l)(c := ch)\<rparr>))"

definition callback :: "'m Libvirt \<Rightarrow> u32 \<Rightarrow> response \<Rightarrow> panic + 'm Libvirt" where
  "callback l cid res =
     (case callbacks l cid of
        None \<Rightarrow> Inr l
      | Some c \<Rightarrow> deliver l c res)"

text \<open>
  stream decodes domain events and sends them to the respective event listener.
  Nothing recovers a panic of this send.
\<close>

definition stream :: "'m extern \<Rightarrow> 'm Libvirt \<Rightarrow> byte list \<Rightarrow> panic + 'm Libvirt" where
  "stream K l buf =
     (case decodeEvent K buf of
        Inl err \<Rightarrow> Inr l
      | Inr e \<Rightarrow>
          (case events l (CallbackID e) of
             None \<Rightarrow> Inr l
           | Some c \<Rightarrow>
               (case send (echans l c) e of
                  Inl p \<Rightarrow> Inl p
                | Inr ch \<Rightarrow> Inr (l\<lparr>echans := (echans l)(c := ch)\<rparr>))))"

text \<open>route sends incoming packets to their listeners.\<close>

definition route :: "'m extern \<Rightarrow> 'm Libvirt \<Rightarrow> header \<Rightarrow> byte list \<Rightarrow> panic + 'm Libvirt" where
  "route K l h buf =
     (if Program h = ProgramQEMU K \<and> Procedure h = QEMUDomainMonitorEvent K
      then stream K l buf
      else callback l (Serial h) \<lparr>Payload = buf, Status_r = Status h\<rparr>)"

text \<open>
  listen processes incoming data and routes responses to their respective callback
  handler. The loop has no bound: \<open>None\<close> is a run that never returns. A negative
  \<^verbatim>\<open>size\<close> makes \<^verbatim>\<open>make([]byte, size)\<close> panic.
\<close>

partial_function (option) listen :: "'m extern \<Rightarrow> 'm Libvirt \<Rightarrow> (panic + 'm Libvirt) option" where
  "listen K l =
     (case pktlen (l_r l) of
        (rd1, Inl err) \<Rightarrow>
          if err = EOF \<or> Contains (Error err) ''use of closed network connection''
          then Some (Inr (l\<lparr>l_r := rd1\<rparr>))
          else listen K (l\<lparr>l_r := rd1\<rparr>)
      | (rd1, Inr len) \<Rightarrow>
          (case extractHeader rd1 of
             (rd2, Inl err) \<Rightarrow> listen K (l\<lparr>l_r := rd2\<rparr>)
           | (rd2, Inr h) \<Rightarrow>
               (let size = int (unat len) - int (PacketLengthSize + HeaderSize)
                in if size < 0 then Some (Inl MakeSliceLenOutOfRange)
                   else
                     (case ReadFull rd2 (nat size) [] of
                        (rd3, Inl err) \<Rightarrow> listen K (l\<lparr>l_r := rd3\<rparr>)
                      | (rd3, Inr buf) \<Rightarrow>
                          (case route K (l\<lparr>l_r := rd3\<rparr>) h buf of
                             Inl p \<Rightarrow> Some (Inl p)
                           | Inr l' \<Rightarrow> listen K l')))))"

subsection \<open>Registries\<close>

text \<open>serial provides atomic access to the next sequential request serial number.\<close>

definition serial :: "'m Libvirt \<Rightarrow> 'm Libvirt \<times> u32" where
  "serial l = (l\<lparr>l_s := l_s l + 1\<rparr>, l_s l + 1)"

text \<open>addStream configures the routing for an event stream.\<close>

definition addStream :: "'m Libvirt \<Rightarrow> u32 \<Rightarrow> nat \<Rightarrow> 'm Libvirt" where
  "addStream l cid strm = l\<lparr>events := (events l)(cid \<mapsto> strm)\<rparr>"

text \<open>register configures a method response callback\<close>

definition register :: "'m Libvirt \<Rightarrow> u32 \<Rightarrow> nat \<Rightarrow> 'm Libvirt" where
  "register l cid c = l\<lparr>callbacks := (callbacks l)(cid \<mapsto> c)\<rparr>"

text \<open>
  deregister destroys a method response callback. The lookup of an id that is not in
  the map gives the \<^verbatim>\<open>nil\<close> channel, and \<^verbatim>\<open>close\<close> of it panics.
\<close>

definition deregister :: "'m Libvirt \<Rightarrow> u32 \<Rightarrow> panic + 'm Libvirt" where
  "deregister l cid =
     (case callbacks l cid of
        None \<Rightarrow> Inl CloseOfNilChannel
      | Some c \<Rightarrow>
          (case close (rchans l c) of
             Inl p \<Rightarrow> Inl p
           | Inr ch \<Rightarrow> Inr (l\<lparr>rchans := (rchans l)(c := ch), callbacks := (callbacks l)(cid := None)\<rparr>)))"

subsection \<open>Requests and streams\<close>

text \<open>
  A call receives from its sink \<^verbatim>\<open>c\<close> what the reader loop sends there while the call
  runs. The functions below take these responses as the list \<open>c\<close>, in arrival order;
  a receive from the empty list waits forever, which is the result \<open>None\<close>.
\<close>

definition getResponse ::
  "'m extern \<Rightarrow> response list \<Rightarrow> (response \<times> error option \<times> response list) option" where
  "getResponse K c =
     (case c of
        [] \<Rightarrow> None
      | resp # c' \<Rightarrow>
          if Status_r resp = StatusError then Some (resp, decodeError K (Payload resp), c')
          else Some (resp, None, c'))"

text \<open>
  The caller's \<^verbatim>\<open>inStream io.Writer\<close>: the payloads written so far, in order, and the
  outcome of each of the next \<^verbatim>\<open>Write\<close> calls (all succeed once the list is used up).
\<close>

record sink =
  writes :: "byte list list"
  ssched :: "error option list"

definition Write_sink :: "sink \<Rightarrow> byte list \<Rightarrow> sink \<times> error option" where
  "Write_sink sk bs =
     (case ssched sk of
        [] \<Rightarrow> (sk\<lparr>writes := writes sk @ [bs]\<rparr>, None)
      | None # es \<Rightarrow> (sk\<lparr>writes := writes sk @ [bs], ssched := es\<rparr>, None)
      | Some err # es \<Rightarrow> (sk\<lparr>ssched := es\<rparr>, Some err))"

text \<open>
  The result is the response, the error, the responses left for later receives and the
  state of \<^verbatim>\<open>inStream\<close> (\<open>None\<close> is a \<^verbatim>\<open>nil\<close> writer).
\<close>

function processIncomingStream ::
  "'m extern \<Rightarrow> response list \<Rightarrow> sink option
     \<Rightarrow> (response \<times> error option \<times> response list \<times> sink option) option" where
  "processIncomingStream K c inStream =
     (case getResponse K c of
        None \<Rightarrow> None
      | Some (resp, Some err, c') \<Rightarrow> Some (resp, Some err, c', inStream)
      | Some (resp, None, c') \<Rightarrow>
          if Status_r resp = StatusOK then Some (resp, None, c', inStream)
          else if length (Payload resp) = 0 then Some (resp, None, c', inStream)
          else
            (case inStream of
               None \<Rightarrow> processIncomingStream K c' None
             | Some sk \<Rightarrow>
                 (case Write_sink sk (Payload resp) of
                    (sk', Some err) \<Rightarrow> Some (response_zero, Some err, c', Some sk')
                  | (sk', None) \<Rightarrow> processIncomingStream K c' (Some sk'))))"
  by pat_completeness auto
termination
  by (relation "measure (\<lambda>(K, c, inStream). length c)")
    (auto simp: getResponse_def split: list.splits if_splits)

declare processIncomingStream.simps [simp del]

text \<open>
  \<open>abort\<close> is the channel \<^verbatim>\<open>abort\<close> as the loop's \<^verbatim>\<open>select\<close> sees it: \<open>Some k\<close> when the
  next \<open>k\<close> polls find it empty and the poll after them receives the signal, \<open>None\<close>
  when no signal is ever sent. The result is the state, the source \<^verbatim>\<open>stream\<close> after the
  reads, whether the signal was received, and the error.
\<close>

function sendStream ::
  "'m extern \<Rightarrow> 'm Libvirt \<Rightarrow> u32 \<Rightarrow> u32 \<Rightarrow> u32 \<Rightarrow> reader \<Rightarrow> nat option
     \<Rightarrow> 'm Libvirt \<times> reader \<times> bool \<times> error option" where
  "sendStream K l sn proc program strm abort =
     (if abort = Some 0 then
        (case sendPacket K l sn proc program None Stream StatusError of
           (l', e) \<Rightarrow> (l', strm, True, e))
      else
        (case Read strm (4 * MiB - HeaderSize) of
           (strm', bs, Some err) \<Rightarrow>
             if err = EOF then
               (case sendPacket K l sn proc program None Stream StatusOK of
                  (l', e) \<Rightarrow> (l', strm', False, e))
             else
               (case sendPacket K l sn proc program None Stream StatusError of
                  (l', Some err2) \<Rightarrow> (l', strm', False, Some err2)
                | (l', None) \<Rightarrow> (l', strm', False, Some err))
         | (strm', bs, None) \<Rightarrow>
             if length bs > 0 then
               (case sendPacket K l sn proc program (Some bs) Stream StatusContinue of
                  (l', Some err) \<Rightarrow> (l', strm', False, Some err)
                | (l', None) \<Rightarrow>
                    sendStream K l' sn proc program strm' (map_option (\<lambda>k. k - 1) abort))
             else sendStream K l sn proc program strm' (map_option (\<lambda>k. k - 1) abort)))"
  by pat_completeness auto
termination
  by (relation "measure (\<lambda>(K, l, sn, proc, program, strm, abort).
        length (rsched strm) + length (rdata strm))")
    (auto simp: Read_def Let_def min_def neq_Nil_conv MiB_def HeaderSize_def
          split: if_splits list.splits)

declare sendStream.simps [simp del]

text \<open>
  What \<^verbatim>\<open>requestStream\<close> returns: the response and the error, with the caller's
  \<^verbatim>\<open>outStream\<close> and \<^verbatim>\<open>inStream\<close> as the call left them.
\<close>

type_synonym 'm call_result = "'m Libvirt \<times> response \<times> error option \<times> reader option \<times> sink option"

text \<open>
  The deferred \<^verbatim>\<open>l.deregister(serial)\<close>, which runs at every return of \<^verbatim>\<open>requestStream\<close>.
\<close>

definition deferred_deregister ::
  "'m Libvirt \<Rightarrow> u32 \<Rightarrow> response \<Rightarrow> error option \<Rightarrow> reader option \<Rightarrow> sink option
     \<Rightarrow> (panic + 'm call_result) option" where
  "deferred_deregister l sn resp err outStream inStream =
     (case deregister l sn of
        Inl p \<Rightarrow> Some (Inl p)
      | Inr l' \<Rightarrow> Some (Inr (l', resp, err, outStream, inStream)))"

text \<open>
  \<open>c\<close> lists the responses that reach the call's sink. With an outgoing stream the
  sender runs as a goroutine beside the receive side; the model runs the receive side
  first and the sender after it, which changes no result, since the sender touches the
  writer only and the receive side does not. \<open>polls\<close> is used when the receive side
  fails: the number of polls of the sender that precede the one receiving the abort
  signal. \<^verbatim>\<open>abortOutStream <- true\<close> waits forever when the sender has returned without
  receiving it.
\<close>

definition requestStream ::
  "'m extern \<Rightarrow> 'm Libvirt \<Rightarrow> u32 \<Rightarrow> u32 \<Rightarrow> byte list option \<Rightarrow> reader option \<Rightarrow> sink option
     \<Rightarrow> response list \<Rightarrow> nat \<Rightarrow> (panic + 'm call_result) option" where
  "requestStream K l proc program payload outStream inStream c polls =
     (case serial l of (l1, sn) \<Rightarrow>
      case make_chan l1 of (l2, ch) \<Rightarrow>
      let l3 = register l2 sn ch in
      case sendPacket K l3 sn proc program payload Call StatusOK of
        (l4, Some err) \<Rightarrow> deferred_deregister l4 sn response_zero (Some err) outStream inStream
      | (l4, None) \<Rightarrow>
          (case getResponse K c of
             None \<Rightarrow> None
           | Some (resp, Some err, c1) \<Rightarrow>
               deferred_deregister l4 sn resp (Some err) outStream inStream
           | Some (resp, None, c1) \<Rightarrow>
               (case outStream of
                  Some strm \<Rightarrow>
                    (case processIncomingStream K c1 inStream of
                       None \<Rightarrow> None
                     | Some (resp', Some err, c2, inStream') \<Rightarrow>
                         (case sendStream K l4 sn proc program strm (Some polls) of
                            (l5, strm', aborted, e) \<Rightarrow>
                              if aborted
                              then deferred_deregister l5 sn resp' (Some err) (Some strm') inStream'
                              else None)
                     | Some (resp', None, c2, inStream') \<Rightarrow>
                         (case sendStream K l4 sn proc program strm None of
                            (l5, strm', aborted, Some err) \<Rightarrow>
                              deferred_deregister l5 sn response_zero (Some err) (Some strm') inStream'
                          | (l5, strm', aborted, None) \<Rightarrow>
                              deferred_deregister l5 sn resp' None (Some strm') inStream'))
                | None \<Rightarrow>
                    (case inStream of
                       Some sk \<Rightarrow>
                         (case processIncomingStream K c1 inStream of
                            None \<Rightarrow> None
                          | Some (resp', err, c2, inStream') \<Rightarrow>
                              deferred_deregister l4 sn resp' err None inStream')
                     | None \<Rightarrow> deferred_deregister l4 sn resp None None None))))"

text \<open>
  request performs a libvirt RPC request. It returns the response returned by the
  server; if the response is not OK, it decodes the error from it and returns it.
\<close>

definition request ::
  "'m extern \<Rightarrow> 'm Libvirt \<Rightarrow> u32 \<Rightarrow> u32 \<Rightarrow> byte list option \<Rightarrow> response list
     \<Rightarrow> (panic + 'm call_result) option" where
  "request K l proc program payload c = requestStream K l proc program payload None None c 0"

text \<open>
  removeStream notifies the libvirt server to stop sending events for the provided
  callback id. Upon successful de-registration the callback handler is destroyed.
  \<open>c\<close> lists the responses that reach the sink of the request it makes.
\<close>

definition removeStream ::
  "'m extern \<Rightarrow> 'm Libvirt \<Rightarrow> u32 \<Rightarrow> response list \<Rightarrow> (panic + 'm Libvirt \<times> error option) option" where
  "removeStream K l cid c =
     (case (case events l cid of
              None \<Rightarrow> Inl CloseOfNilChannel
            | Some ec \<Rightarrow>
                (case close (echans l ec) of
                   Inl p \<Rightarrow> Inl p
                 | Inr ch \<Rightarrow> Inr (l\<lparr>echans := (echans l)(ec := ch)\<rparr>))) of
        Inl p \<Rightarrow> Some (Inl p)
      | Inr l1 \<Rightarrow>
          (case encode K cid of
             (buf, Some err) \<Rightarrow> Some (Inr (l1, Some err))
           | (buf, None) \<Rightarrow>
               (case request K l1 (QEMUConnectDomainMonitorEventDeregister K) (ProgramQEMU K) buf c of
                  None \<Rightarrow> None
                | Some (Inl p) \<Rightarrow> Some (Inl p)
                | Some (Inr (l2, resp, Some err, outStream, inStream)) \<Rightarrow> Some (Inr (l2, Some err))
                | Some (Inr (l2, resp, None, outStream, inStream)) \<Rightarrow>
                    Some (Inr (l2\<lparr>events := (events l2)(cid := None)\<rparr>, None)))))"

subsection \<open>The bytes of a packet, and sample values\<close>

text \<open>
  What a successful \<^verbatim>\<open>sendPacket\<close> puts on the wire for its arguments: the 28 bytes
  of the \<^verbatim>\<open>packet\<close> struct followed by the payload.
\<close>

definition packet_wire ::
  "'m extern \<Rightarrow> u32 \<Rightarrow> u32 \<Rightarrow> u32 \<Rightarrow> byte list option \<Rightarrow> u32 \<Rightarrow> u32 \<Rightarrow> byte list" where
  "packet_wire K sn proc program payload typ status =
     packet_bytes
       \<lparr>Len = of_nat (PacketLengthSize + HeaderSize +
                       (case payload of None \<Rightarrow> 0 | Some bs \<Rightarrow> length bs)),
        Header = \<lparr>Program = program, Version = ProtocolVersion K, Procedure = proc,
                  Type = typ, Serial = sn, Status = status\<rparr>\<rparr>
     @ (case payload of None \<Rightarrow> [] | Some bs \<Rightarrow> bs)"

text \<open>
  Sample values for the closed theorems below: an idle connection, a decoder that is
  given as a table from encodings to values, and externals with the encodings of
  three error records and two events.
\<close>

definition conn0 :: "unit Libvirt" where
  "conn0 =
     \<lparr>l_r = NewReader [],
      l_w = \<lparr>flushed = [], pending = [], wsched = []\<rparr>,
      l_s = 0,
      callbacks = (\<lambda>_. None),
      events = (\<lambda>_. None),
      rchans = (\<lambda>_. \<lparr>closed = False, sent = []\<rparr>),
      echans = (\<lambda>_. \<lparr>closed = False, sent = []\<rparr>),
      nchan = 0\<rparr>"

definition table_decoder :: "(byte list \<times> 'a) list \<Rightarrow> byte list \<Rightarrow> error + 'a" where
  "table_decoder tbl buf =
     (case map_of tbl buf of
        None \<Rightarrow> Inl (OtherError ''xdr: decode failed'')
      | Some v \<Rightarrow> Inr v)"

definition K0 :: "unit extern" where
  "K0 =
     \<lparr>ProtocolVersion = 1,
      ProgramQEMU = 536903815,
      QEMUDomainMonitorEvent = 6,
      QEMUConnectDomainMonitorEventDeregister = 5,
      errOk = 0,
      errNoDomain = 42,
      xdrDecodeError = table_decoder
        [([0,0,0,0, 0,0,0,10, 0,0,0,0, 0,0,0,2, 111,107,0,0, 0,0,0,2],
          \<lparr>Code = 0, DomainID = 10, Padding = 0, Message_e = ''ok'', Level = 2\<rparr>),
         ([0,0,0,42, 0,0,0,10, 0,0,0,0, 0,0,0,9, 110,111,32,100,111,109,97,105,110,0,0,0, 0,0,0,2],
          \<lparr>Code = 42, DomainID = 10, Padding = 0, Message_e = ''no domain'', Level = 2\<rparr>),
         ([0,0,0,39, 0,0,0,7, 0,0,0,0, 0,0,0,17,
           117,110,107,110,111,119,110,32,112,114,111,99,101,100,117,114,101,0,0,0, 0,0,0,2],
          \<lparr>Code = 39, DomainID = 7, Padding = 0, Message_e = ''unknown procedure'', Level = 2\<rparr>)],
      xdrDecodeEvent = table_decoder
        [([0,0,0,7], \<lparr>CallbackID = 7\<rparr>), ([0,0,0,8], \<lparr>CallbackID = 8\<rparr>)],
      xdrMarshalCallbackID = (\<lambda>v. (PutUint32 v, None))\<rparr>"

section \<open>Properties\<close>

subsection \<open>Framing\<close>

lemma Uint32_PutUint32: "Uint32 (PutUint32 v) = v"
  unfolding Uint32_def PutUint32_def
  apply simp
  apply (rule bit_word_eqI)
  subgoal for n
    by (cases "n < 8"; cases "n < 16"; cases "n < 24") (auto simp add: bit_simps not_less)
  done

lemma length_PutUint32 [simp]: "length (PutUint32 v) = 4"
  by (simp add: PutUint32_def)

lemma Uint32_append: "length b = 4 \<Longrightarrow> Uint32 (b @ bs) = Uint32 b"
  by (simp add: Uint32_def nth_append)

lemma readLoop_full:
  assumes "rsched rd = []" "length buf \<le> length (rdata rd)" "0 < length buf"
  shows "readLoop rd buf 0 =
           (rd\<lparr>rdata := drop (length buf) (rdata rd), rsched := []\<rparr>, Inr (take (length buf) (rdata rd)))"
proof -
  have ne: "rdata rd \<noteq> []" using assms by auto
  have R: "Read rd (length buf) =
      (rd\<lparr>rdata := drop (length buf) (rdata rd), rsched := []\<rparr>, take (length buf) (rdata rd), None)"
    using assms ne by (simp add: Read_def min_def Let_def)
  show ?thesis
    using assms
    apply (subst readLoop.simps)
    apply (simp add: R)
    apply (subst readLoop.simps)
    apply (simp add: min_def)
    done
qed

lemma pktlen_NewReader:
  "pktlen (NewReader (PutUint32 v @ rest)) = (NewReader rest, Inr v)"
  apply (simp add: pktlen_def NewReader_def PacketLengthSize_def)
  apply (subst readLoop_full)
  apply (simp_all add: Uint32_PutUint32)
  done

lemma extractHeader_NewReader:
  "extractHeader (NewReader (PutUint32 a @ PutUint32 b @ PutUint32 c @ PutUint32 d @ PutUint32 e @ PutUint32 f @ rest))
     = (NewReader rest, Inr \<lparr>Program = a, Version = b, Procedure = c, Type = d, Serial = e, Status = f\<rparr>)"
  apply (simp add: extractHeader_def NewReader_def HeaderSize_def)
  apply (subst readLoop_full)
  apply (simp_all add: Uint32_PutUint32 Uint32_append)
  done

lemma ReadFull_NewReader:
  "ReadFull (NewReader (pl @ rest)) (length pl) [] = (NewReader rest, Inr pl)"
proof (cases "pl = []")
  case True
  then show ?thesis by (simp add: ReadFull.simps)
next
  case False
  have R: "Read (NewReader (pl @ rest)) (length pl) = (NewReader rest, pl, None)"
    using False by (simp add: Read_def NewReader_def Let_def)
  show ?thesis
    using False
    apply (subst ReadFull.simps)
    apply (simp add: R)
    apply (subst ReadFull.simps)
    apply simp
    done
qed

lemma sendPacket_ok:
  assumes "sendPacket K l sn proc program payload typ status = (l', None)"
  shows "flushed (l_w l') =
           flushed (l_w l) @ [pending (l_w l) @ packet_wire K sn proc program payload typ status]"
    and "pending (l_w l') = []"
    and "l' = l\<lparr>l_w := l_w l'\<rparr>"
  using assms
  by (auto simp: sendPacket_def packet_wire_def Write_def Flush_def Let_def
           split: list.splits option.splits prod.splits)

lemma sendPacket_err:
  assumes "sendPacket K l sn proc program payload typ status = (l', Some e)"
  shows "flushed (l_w l') = flushed (l_w l)" and "l' = l\<lparr>l_w := l_w l'\<rparr>"
  using assms
  by (auto simp: sendPacket_def Write_def Flush_def Let_def
           split: list.splits option.splits prod.splits)

lemma sendPacket_nofail:
  assumes "wsched (l_w l) = []"
  shows "sendPacket K l sn proc program payload typ status =
           (l\<lparr>l_w := (l_w l)\<lparr>flushed := flushed (l_w l) @
                  [pending (l_w l) @ packet_wire K sn proc program payload typ status],
                pending := []\<rparr>\<rparr>, None)"
  using assms
  by (auto simp: sendPacket_def packet_wire_def Write_def Flush_def Let_def
           split: list.splits option.splits prod.splits)

lemma unat_Len:
  assumes "n < 2 ^ 32 - 28"
  shows "unat (of_nat (28 + n) :: u32) = 28 + n"
proof -
  have "unat (of_nat (28 + n) :: u32) = (28 + n) mod 2 ^ 32"
    by (subst unat_of_nat) simp
  also have "\<dots> = 28 + n"
    using assms by simp
  finally show ?thesis .
qed

text \<open>
  C2, as amended. For every header and every payload of fewer than \<open>2^32 - 28\<close> bytes:
  when \<^verbatim>\<open>sendPacket\<close> succeeds on a writer with nothing buffered, it flushes one segment,
  and decoding that segment from a reader that serves each read in full gives, with
  \<^verbatim>\<open>pktlen\<close>, a length of 28 plus the payload size, with \<^verbatim>\<open>extractHeader\<close>, the six
  header fields that \<^verbatim>\<open>sendPacket\<close> was given (the version being the protocol version),
  and with a read of (length - 28) bytes, the payload byte for byte.
\<close>

theorem sendPacket_roundtrip:
  assumes sent: "sendPacket K l sn proc program payload typ status = (l', None)"
    and idle: "pending (l_w l) = []"
    and fits: "length (case payload of None \<Rightarrow> [] | Some bs \<Rightarrow> bs) < 2 ^ 32 - 28"
  shows "\<exists>seg len.
           flushed (l_w l') = flushed (l_w l) @ [seg] \<and>
           pktlen (NewReader seg) = (NewReader (drop 4 seg), Inr len) \<and>
           unat len = 28 + length (case payload of None \<Rightarrow> [] | Some bs \<Rightarrow> bs) \<and>
           extractHeader (NewReader (drop 4 seg)) =
             (NewReader (drop 28 seg),
              Inr \<lparr>Program = program, Version = ProtocolVersion K, Procedure = proc,
                   Type = typ, Serial = sn, Status = status\<rparr>) \<and>
           ReadFull (NewReader (drop 28 seg)) (unat len - 28) [] =
             (NewReader [], Inr (case payload of None \<Rightarrow> [] | Some bs \<Rightarrow> bs))"
proof -
  define pl where "pl = (case payload of None \<Rightarrow> [] | Some bs \<Rightarrow> bs)"
  define seg where "seg = packet_wire K sn proc program payload typ status"
  define len :: u32 where "len = of_nat (28 + length pl)"
  have n: "(case payload of None \<Rightarrow> 0 | Some bs \<Rightarrow> length bs) = length pl"
    by (simp add: pl_def split: option.splits)
  have seg: "seg = PutUint32 len @ PutUint32 program @ PutUint32 (ProtocolVersion K) @
      PutUint32 proc @ PutUint32 typ @ PutUint32 sn @ PutUint32 status @ pl"
    by (simp add: seg_def packet_wire_def packet_bytes_def n len_def pl_def
          PacketLengthSize_def HeaderSize_def)
  have fl: "flushed (l_w l') = flushed (l_w l) @ [seg]"
    using sendPacket_ok(1)[OF sent] idle by (simp add: seg_def)
  have d4: "drop 4 seg = PutUint32 program @ PutUint32 (ProtocolVersion K) @
      PutUint32 proc @ PutUint32 typ @ PutUint32 sn @ PutUint32 status @ pl"
    by (simp add: seg)
  have d28: "drop 28 seg = pl"
    by (simp add: seg)
  have ul: "unat len = 28 + length pl"
    unfolding len_def using fits unat_Len[of "length pl"] by (simp add: pl_def)
  have 1: "pktlen (NewReader seg) = (NewReader (drop 4 seg), Inr len)"
    unfolding d4 by (subst seg) (rule pktlen_NewReader)
  have 2: "extractHeader (NewReader (drop 4 seg)) =
      (NewReader (drop 28 seg),
       Inr \<lparr>Program = program, Version = ProtocolVersion K, Procedure = proc,
            Type = typ, Serial = sn, Status = status\<rparr>)"
    unfolding d4 d28 by (rule extractHeader_NewReader)
  have 3: "ReadFull (NewReader (drop 28 seg)) (unat len - 28) [] = (NewReader [], Inr pl)"
    unfolding d28 ul using ReadFull_NewReader[of pl "[]"] by simp
  from fl 1 2 3 ul show ?thesis
    unfolding pl_def by blast
qed

theorem sendPacket_roundtrip_witness:
  "\<exists>seg len.
     flushed (l_w (fst (sendPacket K0 conn0 1 42 7 (Some [170, 187]) Call StatusOK))) = [seg] \<and>
     pktlen (NewReader seg) = (NewReader (drop 4 seg), Inr len) \<and>
     unat len = 30 \<and>
     extractHeader (NewReader (drop 4 seg)) =
       (NewReader (drop 28 seg),
        Inr \<lparr>Program = 7, Version = 1, Procedure = 42, Type = Call, Serial = 1, Status = StatusOK\<rparr>) \<and>
     ReadFull (NewReader (drop 28 seg)) (unat len - 28) [] = (NewReader [], Inr [170, 187])"
proof -
  have w: "wsched (l_w conn0) = []" "pending (l_w conn0) = []" "flushed (l_w conn0) = []"
    by (simp_all add: conn0_def)
  have s: "sendPacket K0 conn0 1 42 7 (Some [170, 187]) Call StatusOK =
      (fst (sendPacket K0 conn0 1 42 7 (Some [170, 187]) Call StatusOK), None)"
    by (simp add: sendPacket_nofail[OF w(1)])
  have v: "ProtocolVersion K0 = 1"
    by (simp add: K0_def)
  show ?thesis
    using sendPacket_roundtrip[OF s w(2)] by (simp add: w(3) v)
qed

theorem sendPacket_roundtrip_counterexample:
  "snd (pktlen (NewReader (last (flushed (l_w (fst
      (sendPacket K0 conn0 1 42 7 (Some (replicate 4294967268 0)) Call StatusOK))))))) = Inr 0 \<and>
   28 + length (replicate 4294967268 (0 :: byte)) = 4294967296"
proof -
  have w: "wsched (l_w conn0) = []" "pending (l_w conn0) = []"
    by (simp_all add: conn0_def)
  have z: "(of_nat (PacketLengthSize + HeaderSize + length (replicate 4294967268 (0 :: byte))) :: u32) = 0"
    by (simp only: length_replicate PacketLengthSize_def HeaderSize_def) simp
  have "packet_wire K0 1 42 7 (Some (replicate 4294967268 0)) Call StatusOK =
      PutUint32 0 @ (PutUint32 7 @ PutUint32 (ProtocolVersion K0) @ PutUint32 42 @ PutUint32 Call @
        PutUint32 1 @ PutUint32 StatusOK @ replicate 4294967268 0)"
    unfolding packet_wire_def packet_bytes_def option.case z by simp
  then have "snd (pktlen (NewReader (packet_wire K0 1 42 7 (Some (replicate 4294967268 0)) Call StatusOK))) = Inr 0"
    by (simp only: pktlen_NewReader snd_conv)
  then show ?thesis
    by (simp add: sendPacket_nofail[OF w(1)] w(2))
qed

text \<open>
  C9 at a reader that returns the data in partial reads. The stream starts with the
  length 28 (bytes 0, 0, 0, 28). Served one byte per read, \<^verbatim>\<open>pktlen\<close> returns
  \<open>0x1C000000\<close>; served two bytes and then in full, it returns the number formed from
  bytes 2 to 5 and has taken six bytes from the stream.
\<close>

theorem pktlen_partial_reads:
  "pktlen \<lparr>rdata = [0, 0, 0, 28, 1, 2, 3, 4], rsched = [1, 1, 1, 1], rfinal = EOF\<rparr> =
     (\<lparr>rdata = [1, 2, 3, 4], rsched = [], rfinal = EOF\<rparr>, Inr 469762048) \<and>
   pktlen \<lparr>rdata = [0, 0, 0, 28, 1, 2, 3, 4], rsched = [2], rfinal = EOF\<rparr> =
     (\<lparr>rdata = [3, 4], rsched = [], rfinal = EOF\<rparr>, Inr 1835266)"
  by (simp add: pktlen_def readLoop.simps Read_def PacketLengthSize_def Uint32_def)

end
